theory Spec2Isabelle
  imports Main "HOL-Library.Word"
begin

section \<open>The Metal binding indices of flo\_draw\<close>

text \<open>
  The header \<^verbatim>\<open>render/bindings/metal_bindings.h\<close> declares two C enumerations.
  Each enumerator is written with an explicit initialiser, and an enumeration constant
  of C has type \<^verbatim>\<open>int\<close>. An enumeration is embedded as a datatype with one constructor
  per enumerator, in the order of the header, together with the function that sends an
  enumerator to the integer written after its \<^verbatim>\<open>=\<close> sign and the function that
  sends it to its identifier.
\<close>

subsection \<open>The input locations for the Metal vertex shaders\<close>

datatype VertexInputIndex =
    VertexInputIndexMatrix
  | VertexInputIndexVertices
  | VertexTextureMatrix

fun VertexInputIndex_value :: "VertexInputIndex \<Rightarrow> int" where
  "VertexInputIndex_value VertexInputIndexMatrix = 0"
| "VertexInputIndex_value VertexInputIndexVertices = 1"
| "VertexInputIndex_value VertexTextureMatrix = 2"

fun VertexInputIndex_name :: "VertexInputIndex \<Rightarrow> string" where
  "VertexInputIndex_name VertexInputIndexMatrix = ''VertexInputIndexMatrix''"
| "VertexInputIndex_name VertexInputIndexVertices = ''VertexInputIndexVertices''"
| "VertexInputIndex_name VertexTextureMatrix = ''VertexTextureMatrix''"

text \<open>The enumerators in the order in which the header declares them.\<close>

definition VertexInputIndex_members :: "VertexInputIndex list" where
  "VertexInputIndex_members =
     [VertexInputIndexMatrix, VertexInputIndexVertices, VertexTextureMatrix]"

subsection \<open>The input locations for the Metal fragment shaders\<close>

datatype FragmentInputIndex =
    FragmentIndexTexture
  | FragmentIndexEraseTexture
  | FragmentIndexClipMaskTexture

fun FragmentInputIndex_value :: "FragmentInputIndex \<Rightarrow> int" where
  "FragmentInputIndex_value FragmentIndexTexture = 0"
| "FragmentInputIndex_value FragmentIndexEraseTexture = 1"
| "FragmentInputIndex_value FragmentIndexClipMaskTexture = 2"

fun FragmentInputIndex_name :: "FragmentInputIndex \<Rightarrow> string" where
  "FragmentInputIndex_name FragmentIndexTexture = ''FragmentIndexTexture''"
| "FragmentInputIndex_name FragmentIndexEraseTexture = ''FragmentIndexEraseTexture''"
| "FragmentInputIndex_name FragmentIndexClipMaskTexture = ''FragmentIndexClipMaskTexture''"

definition FragmentInputIndex_members :: "FragmentInputIndex list" where
  "FragmentInputIndex_members =
     [FragmentIndexTexture, FragmentIndexEraseTexture, FragmentIndexClipMaskTexture]"

subsection \<open>Conversion from an integer back to an enumerator\<close>

text \<open>
  C converts an integer to an enumeration type by a cast that keeps the value. The
  enumerator a value stands for is found by searching the declared members for the one
  with that value; no member is found for a value the header does not declare.
\<close>

definition VertexInputIndex_of_value :: "int \<Rightarrow> VertexInputIndex option" where
  "VertexInputIndex_of_value n =
     find (\<lambda>m. VertexInputIndex_value m = n) VertexInputIndex_members"

definition FragmentInputIndex_of_value :: "int \<Rightarrow> FragmentInputIndex option" where
  "FragmentInputIndex_of_value n =
     find (\<lambda>m. FragmentInputIndex_value m = n) FragmentInputIndex_members"

subsection \<open>The identifiers the header brings into scope\<close>

text \<open>
  The enumeration constants of both enumerations live in the one scope of ordinary
  identifiers of C. The table lists each identifier with its value, in the order of the
  header. Looking an identifier up in the scope fails (\<open>None\<close>) for an identifier the
  header does not declare.
\<close>

definition enum_constants :: "(string \<times> int) list" where
  "enum_constants =
     map (\<lambda>m. (VertexInputIndex_name m, VertexInputIndex_value m)) VertexInputIndex_members
     @ map (\<lambda>m. (FragmentInputIndex_name m, FragmentInputIndex_value m))
         FragmentInputIndex_members"

definition constant_lookup :: "string \<Rightarrow> int option" where
  "constant_lookup = map_of enum_constants"

text \<open>
  An evaluation of the identifier \<open>n\<close> yields \<open>a\<close> when the header declares \<open>n\<close>
  with the value \<open>a\<close>.
\<close>

definition evaluates :: "string \<Rightarrow> int \<Rightarrow> bool" where
  "evaluates n a = ((n, a) \<in> set enum_constants)"

text \<open>
  The header declares no function, and an enumeration constant of C is not an lvalue:
  nothing in the header takes one scope of constants to another. The step relation on
  scopes therefore has no rule.
\<close>

inductive registry_step :: "(string \<Rightarrow> int option) \<Rightarrow> (string \<Rightarrow> int option) \<Rightarrow> bool"

subsection \<open>The binding tables of the pipeline\<close>

text \<open>
  Modelled from the spec: the tables of bound resources of the GPU pipeline, which the
  renderer fills through the Metal API; neither is part of the header. The spec's
  glossary calls a binding index "the integer identifier a GPU pipeline stage uses to
  locate a bound resource", and its overview partitions the slots "into two independent
  namespaces (vertex-stage inputs, fragment-stage inputs)". Hence one table per stage,
  each from integer slots to resources.
\<close>

record 'r pipeline_bindings =
  vertex_stage :: "int \<rightharpoonup> 'r"
  fragment_stage :: "int \<rightharpoonup> 'r"

text \<open>
  Modelled from the spec: binding a resource to a vertex-stage role, which the renderer
  does and the header does not. The resource is stored in the table of the vertex stage
  at the integer of the role.
\<close>

definition bind_vertex ::
  "VertexInputIndex \<Rightarrow> 'r \<Rightarrow> 'r pipeline_bindings \<Rightarrow> 'r pipeline_bindings" where
  "bind_vertex v r b = b\<lparr>vertex_stage := (vertex_stage b)(VertexInputIndex_value v \<mapsto> r)\<rparr>"

text \<open>
  Modelled from the spec: binding a resource to a fragment-stage role, which the renderer
  does and the header does not. The resource is stored in the table of the fragment stage
  at the integer of the role.
\<close>

definition bind_fragment ::
  "FragmentInputIndex \<Rightarrow> 'r \<Rightarrow> 'r pipeline_bindings \<Rightarrow> 'r pipeline_bindings" where
  "bind_fragment f r b =
     b\<lparr>fragment_stage := (fragment_stage b)(FragmentInputIndex_value f \<mapsto> r)\<rparr>"

text \<open>
  Modelled from the spec: how the vertex stage locates the resource of a role, which the
  shaders do and the header does not.
\<close>

definition vertex_resource :: "'r pipeline_bindings \<Rightarrow> VertexInputIndex \<Rightarrow> 'r option" where
  "vertex_resource b v = vertex_stage b (VertexInputIndex_value v)"

text \<open>
  Modelled from the spec: how the fragment stage locates the resource of a role, which
  the shaders do and the header does not.
\<close>

definition fragment_resource :: "'r pipeline_bindings \<Rightarrow> FragmentInputIndex \<Rightarrow> 'r option" where
  "fragment_resource b f = fragment_stage b (FragmentInputIndex_value f)"

section \<open>Basic facts\<close>

text \<open>Each list of members holds every enumerator of its type.\<close>

lemma VertexInputIndex_members_complete: "set VertexInputIndex_members = UNIV"
proof
  show "UNIV \<subseteq> set VertexInputIndex_members"
  proof
    fix m :: VertexInputIndex
    show "m \<in> set VertexInputIndex_members"
      by (cases m) (simp_all add: VertexInputIndex_members_def)
  qed
qed simp

lemma FragmentInputIndex_members_complete: "set FragmentInputIndex_members = UNIV"
proof
  show "UNIV \<subseteq> set FragmentInputIndex_members"
  proof
    fix m :: FragmentInputIndex
    show "m \<in> set FragmentInputIndex_members"
      by (cases m) (simp_all add: FragmentInputIndex_members_def)
  qed
qed simp

lemma VertexInputIndex_value_cases:
  "VertexInputIndex_value m = 0 \<or> VertexInputIndex_value m = 1 \<or> VertexInputIndex_value m = 2"
  by (cases m) simp_all

lemma FragmentInputIndex_value_cases:
  "FragmentInputIndex_value m = 0 \<or> FragmentInputIndex_value m = 1
     \<or> FragmentInputIndex_value m = 2"
  by (cases m) simp_all

lemma VertexInputIndex_value_bounds:
  "0 \<le> VertexInputIndex_value m" "VertexInputIndex_value m \<le> 2"
  using VertexInputIndex_value_cases [of m] by auto

lemma FragmentInputIndex_value_bounds:
  "0 \<le> FragmentInputIndex_value m" "FragmentInputIndex_value m \<le> 2"
  using FragmentInputIndex_value_cases [of m] by auto

lemma VertexInputIndex_value_range: "range VertexInputIndex_value = {0, 1, 2}"
  unfolding VertexInputIndex_members_complete [symmetric] image_set [symmetric]
  by (simp add: VertexInputIndex_members_def)

lemma FragmentInputIndex_value_range: "range FragmentInputIndex_value = {0, 1, 2}"
  unfolding FragmentInputIndex_members_complete [symmetric] image_set [symmetric]
  by (simp add: FragmentInputIndex_members_def)

lemma VertexInputIndex_value_inj: "inj VertexInputIndex_value"
proof (rule injI)
  fix a b
  assume "VertexInputIndex_value a = VertexInputIndex_value b"
  then show "a = b"
    by (cases a; cases b) simp_all
qed

lemma FragmentInputIndex_value_inj: "inj FragmentInputIndex_value"
proof (rule injI)
  fix a b
  assume "FragmentInputIndex_value a = FragmentInputIndex_value b"
  then show "a = b"
    by (cases a; cases b) simp_all
qed

text \<open>The six identifiers are pairwise different, across both enumerations.\<close>

lemma enum_constants_names_distinct: "distinct (map fst enum_constants)"
  by (simp add: enum_constants_def VertexInputIndex_members_def
      FragmentInputIndex_members_def)

lemma constant_lookup_iff_evaluates: "constant_lookup n = Some a \<longleftrightarrow> evaluates n a"
  unfolding constant_lookup_def evaluates_def
  using enum_constants_names_distinct by (rule map_of_eq_Some_iff)

text \<open>The lookup is a partial function: an undeclared identifier is not found.\<close>

lemma constant_lookup_undeclared: "constant_lookup ''VertexInputIndexTexture'' = None"
  by (simp add: constant_lookup_def enum_constants_def VertexInputIndex_members_def
      FragmentInputIndex_members_def)

text \<open>Small values fit a word that is wide enough.\<close>

lemma uint_small_value:
  fixes k :: int
  assumes "2 \<le> LENGTH('a::len)" and "0 \<le> k" and "k \<le> 2"
  shows "uint (word_of_int k :: 'a word) = k"
proof -
  have "(2::int) ^ 2 \<le> 2 ^ LENGTH('a)"
    using assms(1) by (rule power_increasing) simp
  then have "k < 2 ^ LENGTH('a)"
    using assms(3) by simp
  then show ?thesis
    using assms(2) by (simp add: uint_word_of_int_eq take_bit_int_eq_self)
qed

lemma sint_small_value:
  fixes k :: int
  assumes "3 \<le> LENGTH('a::len)" and "0 \<le> k" and "k \<le> 2"
  shows "sint (word_of_int k :: 'a word) = k"
proof -
  have "2 \<le> LENGTH('a) - 1"
    using assms(1) by simp
  then have "(2::int) ^ 2 \<le> 2 ^ (LENGTH('a) - 1)"
    by (rule power_increasing) simp
  then have "k < 2 ^ (LENGTH('a) - 1)"
    using assms(3) by simp
  then show ?thesis
    using assms(2) by (simp add: sint_sbintrunc' signed_take_bit_int_eq_self)
qed

text \<open>Without a rule, no scope but the first is ever reached.\<close>

lemma registry_step_reachable:
  assumes "registry_step\<^sup>*\<^sup>* e t"
  shows "t = e"
  using assms by (induction rule: rtranclp_induct) (auto elim: registry_step.cases)

section \<open>The values of the interface table\<close>

text \<open>
  Claim C1. The three vertex-stage constants have the values of the interface table:
  the matrix is 0, the vertices are 1 and the texture matrix is 2.
\<close>

theorem vertex_binding_values:
  "VertexInputIndex_value VertexInputIndexMatrix = 0
   \<and> VertexInputIndex_value VertexInputIndexVertices = 1
   \<and> VertexInputIndex_value VertexTextureMatrix = 2"
  by simp

text \<open>
  Claim C2. The three fragment-stage constants have the values of the interface table:
  the texture is 0, the erase texture is 1 and the clip mask texture is 2.
\<close>

theorem fragment_binding_values:
  "FragmentInputIndex_value FragmentIndexTexture = 0
   \<and> FragmentInputIndex_value FragmentIndexEraseTexture = 1
   \<and> FragmentInputIndex_value FragmentIndexClipMaskTexture = 2"
  by simp

text \<open>
  Claim C3. In each enumeration the values of the members, taken in declaration order,
  hold no duplicate, and the set of values is the range from 0 to the number of members
  minus one. The number of members is 3, so each set of values is the set of 0, 1 and 2.
\<close>

theorem slot_values_unique_contiguous:
  "distinct (map VertexInputIndex_value VertexInputIndex_members)
   \<and> range VertexInputIndex_value = {0 .. int (length VertexInputIndex_members) - 1}
   \<and> distinct (map FragmentInputIndex_value FragmentInputIndex_members)
   \<and> range FragmentInputIndex_value = {0 .. int (length FragmentInputIndex_members) - 1}
   \<and> length VertexInputIndex_members = 3
   \<and> length FragmentInputIndex_members = 3
   \<and> range VertexInputIndex_value = {0, 1, 2}
   \<and> range FragmentInputIndex_value = {0, 1, 2}"
proof -
  have r: "{0 .. (3::int) - 1} = {0, 1, 2}"
    by auto
  have lv: "length VertexInputIndex_members = 3"
    by (simp add: VertexInputIndex_members_def)
  have lf: "length FragmentInputIndex_members = 3"
    by (simp add: FragmentInputIndex_members_def)
  have dv: "distinct (map VertexInputIndex_value VertexInputIndex_members)"
    by (simp add: VertexInputIndex_members_def)
  have df: "distinct (map FragmentInputIndex_value FragmentInputIndex_members)"
    by (simp add: FragmentInputIndex_members_def)
  show ?thesis
    using VertexInputIndex_value_range FragmentInputIndex_value_range r lv lf dv df
    by simp
qed

section \<open>The two namespaces\<close>

text \<open>
  Claim C4. The two namespaces are independent. The two enumerations are two types:
  a vertex-stage role is bound by \<open>bind_vertex\<close> only and a fragment-stage role by
  \<open>bind_fragment\<close> only. The matrix of the vertex stage and the texture of the
  fragment stage have the same integer, and yet they are not the same slot: a resource
  bound to a role of one stage is located by that stage at that role, and binding it
  leaves what the other stage locates at each of its roles as it was.
\<close>

theorem namespaces_independent:
  "VertexInputIndex_value VertexInputIndexMatrix = FragmentInputIndex_value FragmentIndexTexture
   \<and> vertex_resource (bind_vertex v r b) v = Some r
   \<and> fragment_resource (bind_vertex v r b) f = fragment_resource b f
   \<and> fragment_resource (bind_fragment f r b) f = Some r
   \<and> vertex_resource (bind_fragment f r b) v = vertex_resource b v"
  by (simp add: vertex_resource_def fragment_resource_def bind_vertex_def bind_fragment_def)

text \<open>
  Claim C10. The two enumerations have the same set of values, the set of 0, 1 and 2.
  Every value of a vertex-stage role is also the value of a fragment-stage role and the
  other way round, so the integer alone does not tell the stage or the role: the map
  from the roles of both stages to their integers is not injective.
\<close>

theorem value_sets_coincide:
  "range VertexInputIndex_value = range FragmentInputIndex_value
   \<and> range VertexInputIndex_value = {0, 1, 2}
   \<and> range FragmentInputIndex_value = {0, 1, 2}
   \<and> (\<exists>f'. FragmentInputIndex_value f' = VertexInputIndex_value v)
   \<and> (\<exists>v'. VertexInputIndex_value v' = FragmentInputIndex_value f)
   \<and> \<not> inj (case_sum VertexInputIndex_value FragmentInputIndex_value)"
proof -
  have "VertexInputIndex_value v \<in> range FragmentInputIndex_value"
    unfolding FragmentInputIndex_value_range
    using VertexInputIndex_value_cases [of v] by auto
  then have vf: "\<exists>f'. FragmentInputIndex_value f' = VertexInputIndex_value v"
    by auto
  have "FragmentInputIndex_value f \<in> range VertexInputIndex_value"
    unfolding VertexInputIndex_value_range
    using FragmentInputIndex_value_cases [of f] by auto
  then have fv: "\<exists>v'. VertexInputIndex_value v' = FragmentInputIndex_value f"
    by auto
  have ni: "\<not> inj (case_sum VertexInputIndex_value FragmentInputIndex_value)"
  proof
    assume "inj (case_sum VertexInputIndex_value FragmentInputIndex_value)"
    then have "Inl VertexInputIndexMatrix
        = (Inr FragmentIndexTexture :: VertexInputIndex + FragmentInputIndex)"
      by (rule injD) simp
    then show False
      by simp
  qed
  show ?thesis
    using vf fv ni VertexInputIndex_value_range FragmentInputIndex_value_range by simp
qed

section \<open>Lookups\<close>

text \<open>
  Claim C5. Looking up any of the six named constants does not fail: the lookup of the
  identifier of every enumerator finds a value, the one the header gives it, and never
  ends in the error case \<open>None\<close>. The lookup is a function of the identifier alone
  and takes no state that it could change.
\<close>

theorem constant_lookup_total:
  "constant_lookup (VertexInputIndex_name v) = Some (VertexInputIndex_value v)
   \<and> constant_lookup (FragmentInputIndex_name f) = Some (FragmentInputIndex_value f)"
proof
  show "constant_lookup (VertexInputIndex_name v) = Some (VertexInputIndex_value v)"
    by (cases v)
      (simp_all add: constant_lookup_def enum_constants_def VertexInputIndex_members_def
        FragmentInputIndex_members_def)
  show "constant_lookup (FragmentInputIndex_name f) = Some (FragmentInputIndex_value f)"
    by (cases f)
      (simp_all add: constant_lookup_def enum_constants_def VertexInputIndex_members_def
        FragmentInputIndex_members_def)
qed

text \<open>
  Claim C7. The constants are deterministic and immutable. Two evaluations of the same
  identifier yield the same integer. No operation changes a binding: at every point
  that steps of the registry reach from the scope of the header, the identifier still
  has that integer.
\<close>

theorem constants_deterministic_immutable:
  assumes "evaluates n a" and "evaluates n b"
    and "registry_step\<^sup>*\<^sup>* constant_lookup e1"
    and "registry_step\<^sup>*\<^sup>* constant_lookup e2"
  shows "a = b \<and> e1 n = Some a \<and> e2 n = Some a"
proof -
  have "constant_lookup n = Some a" and "constant_lookup n = Some b"
    using assms(1,2) by (simp_all add: constant_lookup_iff_evaluates)
  moreover have "e1 = constant_lookup" and "e2 = constant_lookup"
    using assms(3,4) by (simp_all add: registry_step_reachable)
  ultimately show ?thesis
    by simp
qed

theorem constants_deterministic_immutable_witness:
  "evaluates ''FragmentIndexEraseTexture'' 1
   \<and> registry_step\<^sup>*\<^sup>* constant_lookup constant_lookup
   \<and> constant_lookup ''FragmentIndexEraseTexture'' = Some 1"
proof -
  have h: "evaluates ''FragmentIndexEraseTexture'' 1"
    by (simp add: evaluates_def enum_constants_def VertexInputIndex_members_def
        FragmentInputIndex_members_def)
  have s: "registry_step\<^sup>*\<^sup>* constant_lookup constant_lookup"
    by simp
  show ?thesis
    using h s constants_deterministic_immutable [OF h h s s] by simp
qed

section \<open>The integer encoding\<close>

text \<open>
  Claim C6, as stated, fails for a signed representation of width 2: it holds the
  integers from -2 to 1, and the texture matrix, 2, stored in it reads back as -2.
\<close>

theorem signed_two_bits_counterexample:
  "VertexInputIndex_value VertexTextureMatrix = 2
   \<and> LENGTH(2) = 2
   \<and> sint (word_of_int (VertexInputIndex_value VertexTextureMatrix) :: 2 word) = - 2
   \<and> sint (word_of_int (VertexInputIndex_value VertexTextureMatrix) :: 2 word)
       \<noteq> VertexInputIndex_value VertexTextureMatrix"
  by simp

text \<open>
  Claim C6, amended. Each of the six constants lies between 0 and 2, so it is stored
  exactly by every unsigned representation of width at least 2 bits and by every
  two's complement representation of width at least 3 bits.
\<close>

theorem binding_values_small_nonnegative:
  assumes "2 \<le> LENGTH('u::len)" and "3 \<le> LENGTH('s::len)"
  shows "0 \<le> VertexInputIndex_value v \<and> VertexInputIndex_value v \<le> 2
    \<and> 0 \<le> FragmentInputIndex_value f \<and> FragmentInputIndex_value f \<le> 2
    \<and> uint (word_of_int (VertexInputIndex_value v) :: 'u word) = VertexInputIndex_value v
    \<and> uint (word_of_int (FragmentInputIndex_value f) :: 'u word) = FragmentInputIndex_value f
    \<and> sint (word_of_int (VertexInputIndex_value v) :: 's word) = VertexInputIndex_value v
    \<and> sint (word_of_int (FragmentInputIndex_value f) :: 's word) = FragmentInputIndex_value f"
  using assms
  by (simp add: uint_small_value sint_small_value VertexInputIndex_value_bounds
      FragmentInputIndex_value_bounds)

theorem binding_values_small_nonnegative_witness:
  "2 \<le> LENGTH(2) \<and> 3 \<le> LENGTH(3)
   \<and> uint (word_of_int (VertexInputIndex_value VertexTextureMatrix) :: 2 word) = 2
   \<and> sint (word_of_int (VertexInputIndex_value VertexTextureMatrix) :: 3 word) = 2
   \<and> uint (word_of_int (FragmentInputIndex_value FragmentIndexClipMaskTexture) :: 2 word) = 2
   \<and> sint (word_of_int (FragmentInputIndex_value FragmentIndexClipMaskTexture) :: 3 word) = 2"
proof -
  have u: "2 \<le> LENGTH(2)"
    by simp
  have s: "3 \<le> LENGTH(3)"
    by simp
  show ?thesis
    using binding_values_small_nonnegative
      [OF u s, of VertexTextureMatrix FragmentIndexClipMaskTexture]
    by simp
qed

section \<open>Order and inverse\<close>

text \<open>
  Claim C8. Within each enumeration the values increase strictly along the declaration
  order, so the declaration order and the numeric order are the same.
\<close>

theorem values_increase_in_declaration_order:
  "VertexInputIndex_value VertexInputIndexMatrix
     < VertexInputIndex_value VertexInputIndexVertices
   \<and> VertexInputIndex_value VertexInputIndexVertices
     < VertexInputIndex_value VertexTextureMatrix
   \<and> FragmentInputIndex_value FragmentIndexTexture
     < FragmentInputIndex_value FragmentIndexEraseTexture
   \<and> FragmentInputIndex_value FragmentIndexEraseTexture
     < FragmentInputIndex_value FragmentIndexClipMaskTexture
   \<and> sorted_wrt (<) (map VertexInputIndex_value VertexInputIndex_members)
   \<and> sorted_wrt (<) (map FragmentInputIndex_value FragmentInputIndex_members)"
  by (simp add: VertexInputIndex_members_def FragmentInputIndex_members_def)

text \<open>
  Claim C9. Within each enumeration the map from the members to their values is
  injective, and converting a member to its value and the value back to a member
  yields the member again.
\<close>

theorem value_round_trip:
  "inj VertexInputIndex_value
   \<and> inj FragmentInputIndex_value
   \<and> VertexInputIndex_of_value (VertexInputIndex_value v) = Some v
   \<and> FragmentInputIndex_of_value (FragmentInputIndex_value f) = Some f"
proof -
  have "VertexInputIndex_of_value (VertexInputIndex_value v) = Some v"
    by (cases v) (simp_all add: VertexInputIndex_of_value_def VertexInputIndex_members_def)
  moreover have "FragmentInputIndex_of_value (FragmentInputIndex_value f) = Some f"
    by (cases f)
      (simp_all add: FragmentInputIndex_of_value_def FragmentInputIndex_members_def)
  ultimately show ?thesis
    using VertexInputIndex_value_inj FragmentInputIndex_value_inj by simp
qed

end
